theory Spec2Isabelle
  imports Main
begin

section \<open>JavaScript values and thrown errors\<close>

text \<open>
  Values of TypeScript type \<open>any\<close> (job payload fields, settings, configuration values,
  the objects \<open>rison-node\<close> encodes and decodes). An object is the list of its own
  properties in insertion order.
\<close>

datatype jsval =
    Undefined
  | Null
  | Bool bool
  | Num int
  | Str string
  | Arr "jsval list"
  | Obj "(string \<times> jsval) list"

text \<open>JavaScript truthiness, as used by \<open>a || b\<close> and \<open>c ? x : y\<close>.\<close>

fun truthy :: "jsval \<Rightarrow> bool" where
  "truthy Undefined = False"
| "truthy Null = False"
| "truthy (Bool b) = b"
| "truthy (Num n) = (n \<noteq> 0)"
| "truthy (Str s) = (s \<noteq> [])"
| "truthy (Arr xs) = True"
| "truthy (Obj ps) = True"

text \<open>
  A thrown value is an \<open>Error\<close> object: its \<open>name\<close> and its \<open>message\<close>.
  \<open>new Error(m)\<close> has the name \<open>Error\<close>; \<open>toString\<close> is
  \<open>Error.prototype.toString\<close>.
\<close>

datatype js_error = JsError (err_name: string) (err_message: string)

definition new_Error :: "string \<Rightarrow> js_error" where
  "new_Error m = JsError ''Error'' m"

definition toString :: "js_error \<Rightarrow> string" where
  "toString e =
     (if err_name e = [] then err_message e
      else if err_message e = [] then err_name e
      else err_name e @ '': '' @ err_message e)"

section \<open>The alert list selectors\<close>

text \<open>
  The part of \<open>AlertListState\<close> the selectors read. The types of the alert data, of the
  alert details and of the index patterns are not inspected and stay type parameters.
  \<open>location\<close> is \<open>undefined\<close> (\<open>None\<close>) until the router has reported one.
\<close>

record location =
  pathname :: string
  search :: string
  hash :: string

record ('a, 'd, 'p) AlertListState =
  alerts :: 'a
  alertDetails :: 'd
  pageIndex :: int
  pageSize :: int
  total_alerts :: int
  location :: "location option"
  searchBar_patterns :: 'p

text \<open>
  What \<open>querystring.parse\<close> stores under a key: a string, or an array of strings when
  the key occurred more than once. A parsed query is a dictionary of those.
\<close>

datatype qs_value = QString string | QArray "string list"

type_synonym parsed_query = "string \<rightharpoonup> qs_value"

text \<open>
  An \<open>AlertingIndexUIQueryParams\<close> object: a dictionary whose values have type
  \<open>string | undefined\<close>. \<open>d k = None\<close>: the object has no property \<open>k\<close>;
  \<open>d k = Some None\<close>: the property is there and holds \<open>undefined\<close>;
  \<open>d k = Some (Some v)\<close>: it holds the string \<open>v\<close>.
\<close>

type_synonym query_params = "string \<rightharpoonup> string option"

text \<open>Reading a property, as destructuring does: a missing property reads \<open>undefined\<close>.\<close>

definition get_prop :: "query_params \<Rightarrow> string \<Rightarrow> string option" where
  "get_prop d k = (case d k of None \<Rightarrow> None | Some v \<Rightarrow> v)"

text \<open>
  The libraries the selectors import, taken as parameters: \<open>querystring.parse\<close>, and
  \<open>encode\<close> and \<open>decode\<close> of \<open>rison-node\<close>. Parsing and decoding may throw.
\<close>

record libs =
  qs_parse :: "string \<Rightarrow> js_error + parsed_query"
  rison_encode :: "jsval \<Rightarrow> string"
  rison_decode :: "string \<Rightarrow> js_error + jsval"

text \<open>
  \<open>createSelector\<close> of \<open>reselect\<close> with one and with two input selectors: the
  inputs are read from the state in order and handed to the result function. The cache of
  the last result changes no returned value and is left out.
\<close>

definition createSelector ::
  "('s \<Rightarrow> js_error + 'a) \<Rightarrow> ('a \<Rightarrow> js_error + 'b) \<Rightarrow> 's \<Rightarrow> js_error + 'b" where
  "createSelector sel f state =
     (case sel state of Inl e \<Rightarrow> Inl e | Inr a \<Rightarrow> f a)"

definition createSelector2 ::
  "('s \<Rightarrow> js_error + 'a) \<Rightarrow> ('s \<Rightarrow> js_error + 'b) \<Rightarrow> ('a \<Rightarrow> 'b \<Rightarrow> js_error + 'c)
     \<Rightarrow> 's \<Rightarrow> js_error + 'c" where
  "createSelector2 sel1 sel2 f state =
     (case sel1 state of
        Inl e \<Rightarrow> Inl e
      | Inr a \<Rightarrow> (case sel2 state of Inl e \<Rightarrow> Inl e | Inr b \<Rightarrow> f a b))"

definition isOnAlertPage :: "('a, 'd, 'p) AlertListState \<Rightarrow> bool" where
  "isOnAlertPage state =
     (case location state of
        Some loc \<Rightarrow> pathname loc = ''/alerts''
      | None \<Rightarrow> False)"

definition ui_keys :: "string list" where
  "ui_keys =
     [''page_size'', ''page_index'', ''selected_alert'', ''query'', ''date_range'', ''filters'']"

text \<open>
  One round of the loop over \<open>keys\<close>. \<open>value[value.length - 1]\<close> of an empty array
  is \<open>undefined\<close>, and the assignment still creates the property.
\<close>

definition assign_key :: "parsed_query \<Rightarrow> query_params \<Rightarrow> string \<Rightarrow> query_params" where
  "assign_key query data key =
     (case query key of
        Some (QString v) \<Rightarrow> data(key \<mapsto> Some v)
      | Some (QArray vs) \<Rightarrow> data(key \<mapsto> (if vs = [] then None else Some (last vs)))
      | None \<Rightarrow> data)"

definition uiQueryParams_of ::
  "libs \<Rightarrow> location option \<Rightarrow> js_error + query_params" where
  "uiQueryParams_of L loc_opt =
     (case loc_opt of
        None \<Rightarrow> Inr Map.empty
      | Some loc \<Rightarrow>
          (case qs_parse L (drop 1 (search loc)) of
             Inl e \<Rightarrow> Inl e
           | Inr query \<Rightarrow> Inr (foldl (assign_key query) Map.empty ui_keys)))"

definition uiQueryParams ::
  "libs \<Rightarrow> ('a, 'd, 'p) AlertListState \<Rightarrow> js_error + query_params" where
  "uiQueryParams L = createSelector (\<lambda>state. Inr (location state)) (uiQueryParams_of L)"

definition default_query :: jsval where
  "default_query = Obj [(''query'', Str ''''), (''language'', Str ''kuery'')]"

definition searchBarQuery ::
  "libs \<Rightarrow> ('a, 'd, 'p) AlertListState \<Rightarrow> js_error + jsval" where
  "searchBarQuery L =
     createSelector (uiQueryParams L)
       (\<lambda>d. case get_prop d ''query'' of
               Some query \<Rightarrow> rison_decode L query
             | None \<Rightarrow> Inr default_query)"

definition default_date_range :: jsval where
  "default_date_range = Obj [(''from'', Str ''now-24h''), (''to'', Str ''now'')]"

definition encodedSearchBarDateRange ::
  "libs \<Rightarrow> ('a, 'd, 'p) AlertListState \<Rightarrow> js_error + string" where
  "encodedSearchBarDateRange L =
     createSelector (uiQueryParams L)
       (\<lambda>d. case get_prop d ''date_range'' of
               None \<Rightarrow> Inr (rison_encode L default_date_range)
             | Some dateRange \<Rightarrow> Inr dateRange)"

definition searchBarDateRange ::
  "libs \<Rightarrow> ('a, 'd, 'p) AlertListState \<Rightarrow> js_error + jsval" where
  "searchBarDateRange L =
     createSelector (encodedSearchBarDateRange L) (\<lambda>encodedDateRange. rison_decode L encodedDateRange)"

definition searchBarFilters ::
  "libs \<Rightarrow> ('a, 'd, 'p) AlertListState \<Rightarrow> js_error + jsval" where
  "searchBarFilters L =
     createSelector (uiQueryParams L)
       (\<lambda>d. case get_prop d ''filters'' of
               Some filters \<Rightarrow> rison_decode L filters
             | None \<Rightarrow> Inr (Arr []))"

text \<open>
  The object literal of \<open>apiQueryParams\<close> has its five properties whatever they hold:
  a parameter missing from the URL is a property holding \<open>undefined\<close>.
\<close>

definition apiQueryParams ::
  "libs \<Rightarrow> ('a, 'd, 'p) AlertListState \<Rightarrow> js_error + query_params" where
  "apiQueryParams L =
     createSelector2 (uiQueryParams L) (encodedSearchBarDateRange L)
       (\<lambda>d encodedDateRange. Inr
          [''page_size'' \<mapsto> get_prop d ''page_size'',
           ''page_index'' \<mapsto> get_prop d ''page_index'',
           ''query'' \<mapsto> get_prop d ''query'',
           ''date_range'' \<mapsto> Some encodedDateRange,
           ''filters'' \<mapsto> get_prop d ''filters''])"

definition hasSelectedAlert ::
  "libs \<Rightarrow> ('a, 'd, 'p) AlertListState \<Rightarrow> js_error + bool" where
  "hasSelectedAlert L =
     createSelector (uiQueryParams L) (\<lambda>d. Inr (get_prop d ''selected_alert'' \<noteq> None))"

subsection \<open>Sample inputs\<close>

text \<open>A library stub, a location and two states that differ outside the location.\<close>

definition sample_libs :: libs where
  "sample_libs =
     \<lparr>qs_parse = (\<lambda>s.
        if s = ''page_size=10&date_range=a&date_range=b&tab=1''
        then Inr [''page_size'' \<mapsto> QString ''10'', ''date_range'' \<mapsto> QArray [''a'', ''b''],
                  ''tab'' \<mapsto> QString ''1'']
        else Inr Map.empty),
      rison_encode = (\<lambda>v. if v = default_date_range then ''(from:now-24h,to:now)'' else ''''),
      rison_decode = (\<lambda>s. Inl (new_Error ''unreadable''))\<rparr>"

definition sample_location :: location where
  "sample_location =
     \<lparr>pathname = ''/alerts'', search = ''?page_size=10&date_range=a&date_range=b&tab=1'',
      hash = ''''\<rparr>"

definition sample_query :: parsed_query where
  "sample_query =
     [''page_size'' \<mapsto> QString ''10'', ''date_range'' \<mapsto> QArray [''a'', ''b''],
      ''tab'' \<mapsto> QString ''1'']"

definition sample_state :: "(nat list, unit, unit) AlertListState" where
  "sample_state =
     \<lparr>alerts = [], alertDetails = (), pageIndex = 0, pageSize = 10, total_alerts = 0,
      location = Some sample_location, searchBar_patterns = ()\<rparr>"

definition sample_state2 :: "(nat list, unit, unit) AlertListState" where
  "sample_state2 =
     \<lparr>alerts = [4, 2], alertDetails = (), pageIndex = 3, pageSize = 50, total_alerts = 2,
      location = Some sample_location, searchBar_patterns = ()\<rparr>"

section \<open>The CSV export job\<close>

subsection \<open>Promises\<close>

text \<open>
  A promise that has settled: the time at which it settled and its outcome (\<open>Inl\<close>:
  rejected with that error). Times only order the settlements of promises that are
  pending together.
\<close>

type_synonym 'a promise = "nat \<times> (js_error + 'a)"

definition map_promise :: "('a \<Rightarrow> 'b) \<Rightarrow> 'a promise \<Rightarrow> 'b promise" where
  "map_promise f p = (fst p, map_sum id f (snd p))"

text \<open>
  \<open>Promise.all\<close> of two promises: it resolves, once both have, with both values; it
  rejects as soon as one rejects, with that error. Of two rejections the earlier one
  wins, the left one when they settle together.
\<close>

definition Promise_all2 :: "'a promise \<Rightarrow> 'b promise \<Rightarrow> ('a \<times> 'b) promise" where
  "Promise_all2 a b =
     (case snd a of
        Inr x \<Rightarrow>
          (case snd b of
             Inr y \<Rightarrow> (max (fst a) (fst b), Inr (x, y))
           | Inl e \<Rightarrow> (fst b, Inl e))
      | Inl e \<Rightarrow>
          (case snd b of
             Inr y \<Rightarrow> (fst a, Inl e)
           | Inl e' \<Rightarrow> (if fst a \<le> fst b then (fst a, Inl e) else (fst b, Inl e'))))"

text \<open>\<open>Promise.all\<close> of three promises, by the same rule.\<close>

definition Promise_all3 ::
  "'a promise \<Rightarrow> 'b promise \<Rightarrow> 'c promise \<Rightarrow> ('a \<times> 'b \<times> 'c) promise" where
  "Promise_all3 a b c =
     map_promise (\<lambda>((x, y), z). (x, y, z)) (Promise_all2 (Promise_all2 a b) c)"

subsection \<open>Data\<close>

text \<open>
  The job document. Each field holds a value of type \<open>any\<close>: a primitive, or an
  object the document refers to. \<open>fields'\<close> is the field \<open>fields\<close>. executeJob
  looks into \<open>headers\<close> (is it a string) and \<open>basePath\<close> (is it truthy) only.
\<close>

record JobDocPayloadDiscoverCsv =
  searchRequest :: jsval
  fields' :: jsval
  indexPatternSavedObject :: jsval
  metaFields :: jsval
  conflictedTypesFields :: jsval
  headers :: jsval
  basePath :: jsval

text \<open>
  Objects that collaborators hand out and executeJob only passes on; each is known by an
  identifier.
\<close>

datatype elasticsearch_service = ElasticsearchService nat
datatype kibana_request = KibanaRequest nat
datatype cluster_caller = CallAsCurrentUser nat
datatype saved_objects_client = SavedObjectsClient nat
datatype ui_settings_client = UiSettingsClient nat
datatype field_formats = FieldFormats nat
datatype formats_map = FormatsMap nat

text \<open>The object \<open>cryptoFactory\<close> makes from the encryption key.\<close>

datatype crypto = Crypto jsval

text \<open>A logger: the one given to the factory, or a clone of a logger with more tags.\<close>

datatype logger = ParentLogger nat | Clone logger "string list"

text \<open>The wrapper \<open>callEndpoint\<close> around \<open>callAsCurrentUser\<close>.\<close>

datatype call_endpoint = CallEndpoint cluster_caller

text \<open>
  The object literal cast to \<open>Hapi.Request\<close>. \<open>req_getBasePath\<close> is the value the
  \<open>getBasePath\<close> closure returns.
\<close>

record fake_hapi_request =
  req_headers :: jsval
  req_getBasePath :: jsval
  req_path :: string
  req_route_settings :: jsval
  req_url_href :: string
  req_raw_req_url :: string

record ui_settings =
  separator :: jsval
  quoteValues :: jsval
  timezone :: jsval

record csv_settings = ui_settings +
  checkForFormulas :: jsval
  maxSizeBytes :: jsval
  scroll :: jsval

record 'tok generate_csv_args =
  arg_searchRequest :: jsval
  arg_fields :: jsval
  arg_metaFields :: jsval
  arg_conflictedTypesFields :: jsval
  arg_callEndpoint :: call_endpoint
  arg_cancellationToken :: 'tok
  arg_formatsMap :: formats_map
  arg_settings :: csv_settings

text \<open>What \<open>generateCsv\<close> resolves with.\<close>

record generate_csv_result =
  csv_content :: string
  csv_maxSizeReached :: jsval
  csv_size :: jsval
  csv_containsFormulas :: jsval

text \<open>What executeJob resolves with.\<close>

record job_result =
  content_type :: string
  content :: string
  max_size_reached :: jsval
  size_bytes :: jsval
  csv_contains_formulas :: jsval


subsection \<open>Collaborators\<close>

text \<open>
  Everything executeJob imports or receives from the reporting core, taken as parameters.
  An operation that is awaited gives the outcome of its promise; the reads that are
  pending together under a \<open>Promise.all\<close> give a promise with its settling time.
  The functions called without \<open>await\<close> (\<open>config.get\<close>,
  \<open>config.kbnConfig.get\<close>, \<open>i18n.translate\<close>, \<open>KibanaRequest.from\<close>,
  \<open>asScoped(...).callAsCurrentUser\<close>, \<open>fieldFormatMapFactory\<close>) return a value.
  \<open>translate\<close> is applied to the message id, the default message and the values;
  \<open>fieldFormatServiceFactory\<close> is the one of \<open>getFieldFormats()\<close>;
  \<open>generateCsv env l\<close> is the function \<open>createGenerateCsv(l)\<close> returns.
\<close>

record 'tok env =
  CSV_JOB_TYPE :: string
  CSV_BOM_CHARS :: string
  config_get :: "string list \<Rightarrow> jsval"
  kbnConfig_get :: "string list \<Rightarrow> jsval"
  translate :: "string \<Rightarrow> string \<Rightarrow> (string \<times> string) list \<Rightarrow> string"
  getElasticsearchService :: "js_error + elasticsearch_service"
  decrypt :: "crypto \<Rightarrow> string \<Rightarrow> js_error + jsval"
  KibanaRequest_from :: "fake_hapi_request \<Rightarrow> kibana_request"
  asScoped :: "elasticsearch_service \<Rightarrow> kibana_request \<Rightarrow> cluster_caller"
  getSavedObjectsClient :: "kibana_request \<Rightarrow> js_error + saved_objects_client"
  getUiSettingsServiceFactory :: "saved_objects_client \<Rightarrow> js_error + ui_settings_client"
  fieldFormatServiceFactory :: "ui_settings_client \<Rightarrow> field_formats promise"
  fieldFormatMapFactory :: "jsval \<Rightarrow> field_formats \<Rightarrow> formats_map"
  uiSettings_get :: "ui_settings_client \<Rightarrow> string \<Rightarrow> jsval promise"
  generateCsv :: "logger \<Rightarrow> 'tok generate_csv_args \<Rightarrow> js_error + generate_csv_result"

subsection \<open>State and effects\<close>

text \<open>The asynchronous operations executeJob starts, in the order it starts them.\<close>

datatype 'tok call =
    GetElasticsearchService
  | Decrypt crypto string
  | GetSavedObjectsClient kibana_request
  | GetUiSettingsServiceFactory saved_objects_client
  | FieldFormatServiceFactory ui_settings_client
  | UiSettingsGet ui_settings_client string
  | GenerateCsv logger "'tok generate_csv_args"

datatype log_entry = LogError logger js_error | LogWarn logger string

text \<open>
  The state an invocation runs in: the job object its \<open>job\<close> argument refers to, what
  has been logged and which operations have been started. The state after an invocation
  holds everything the invocation did, also what a branch of a \<open>Promise.all\<close> did
  after the other branch had rejected.
\<close>

record 'tok world =
  payload :: JobDocPayloadDiscoverCsv
  logged :: "log_entry list"
  calls :: "'tok call list"

type_synonym ('tok, 'a) action = "'tok world \<Rightarrow> (js_error + 'a) \<times> 'tok world"

definition return :: "'a \<Rightarrow> ('tok, 'a) action" where
  "return x w = (Inr x, w)"

definition throw :: "js_error \<Rightarrow> ('tok, 'a) action" where
  "throw e w = (Inl e, w)"

definition bind :: "('tok, 'a) action \<Rightarrow> ('a \<Rightarrow> ('tok, 'b) action) \<Rightarrow> ('tok, 'b) action" where
  "bind m f w = (case m w of (Inl e, w') \<Rightarrow> (Inl e, w') | (Inr x, w') \<Rightarrow> f x w')"

definition try_catch ::
  "('tok, 'a) action \<Rightarrow> (js_error \<Rightarrow> ('tok, 'a) action) \<Rightarrow> ('tok, 'a) action" where
  "try_catch m handler w = (case m w of (Inl e, w') \<Rightarrow> handler e w' | (Inr x, w') \<Rightarrow> (Inr x, w'))"

definition read_job :: "('tok, JobDocPayloadDiscoverCsv) action" where
  "read_job w = (Inr (payload w), w)"

definition start :: "'tok call \<Rightarrow> ('tok, unit) action" where
  "start c w = (Inr (), w\<lparr>calls := calls w @ [c]\<rparr>)"

definition logger_error :: "logger \<Rightarrow> js_error \<Rightarrow> ('tok, unit) action" where
  "logger_error l e w = (Inr (), w\<lparr>logged := logged w @ [LogError l e]\<rparr>)"

definition logger_warn :: "logger \<Rightarrow> string \<Rightarrow> ('tok, unit) action" where
  "logger_warn l m w = (Inr (), w\<lparr>logged := logged w @ [LogWarn l m]\<rparr>)"

text \<open>\<open>await\<close> of an outcome: the value, or the rejection thrown.\<close>

definition settle :: "js_error + 'a \<Rightarrow> ('tok, 'a) action" where
  "settle r = (case r of Inl e \<Rightarrow> throw e | Inr x \<Rightarrow> return x)"

text \<open>\<open>await op(...)\<close>: the operation is started, then awaited.\<close>

definition await :: "'tok call \<Rightarrow> js_error + 'a \<Rightarrow> ('tok, 'a) action" where
  "await c r = bind (start c) (\<lambda>_. settle r)"

text \<open>
  What an \<open>async\<close> function does after \<open>await p\<close>: nothing if \<open>p\<close> rejects, the
  rest of its body otherwise. The promise the function returned settles when \<open>p\<close> does.
\<close>

definition after_await ::
  "'a promise \<Rightarrow> ('a \<Rightarrow> ('tok, 'b) action) \<Rightarrow> ('tok, 'b promise) action" where
  "after_await p rest w =
     (case snd p of
        Inl e \<Rightarrow> (Inr (fst p, Inl e), w)
      | Inr x \<Rightarrow> (case rest x w of (r, w') \<Rightarrow> (Inr (fst p, r), w')))"

subsection \<open>executeJob\<close>

definition missingJobHeadersErrorMessage :: "'tok env \<Rightarrow> string" where
  "missingJobHeadersErrorMessage env =
     translate env ''xpack.reporting.exportTypes.csv.executeJob.missingJobHeadersErrorMessage''
       ''Job headers are missing'' []"

definition failedToDecryptReportJobDataErrorMessage :: "'tok env \<Rightarrow> js_error \<Rightarrow> string" where
  "failedToDecryptReportJobDataErrorMessage env err =
     translate env
       ''xpack.reporting.exportTypes.csv.executeJob.failedToDecryptReportJobDataErrorMessage''
       ''Failed to decrypt report job data. Please ensure that {encryptionKey} is set and re-generate this report. {err}''
       [(''encryptionKey'', ''xpack.reporting.encryptionKey''), (''err'', toString err)]"

definition dateFormateSetting :: "'tok env \<Rightarrow> string" where
  \<open>dateFormateSetting env =
     translate env ''xpack.reporting.exportTypes.csv.executeJob.dateFormateSetting''
       ''Kibana Advanced Setting "{dateFormatTimezone}" is set to "Browser". Dates will be formatted as UTC to avoid ambiguity.''
       [(''dateFormatTimezone'', ''dateFormat:tz'')]\<close>

definition decryptHeaders ::
  "'tok env \<Rightarrow> crypto \<Rightarrow> logger \<Rightarrow> jsval \<Rightarrow> ('tok, jsval) action" where
  "decryptHeaders env crypto logger hdrs =
     try_catch
       (case hdrs of
          Str h \<Rightarrow> await (Decrypt crypto h) (decrypt env crypto h)
        | _ \<Rightarrow> throw (new_Error (missingJobHeadersErrorMessage env)))
       (\<lambda>err. bind (logger_error logger err)
          (\<lambda>_. throw (new_Error (failedToDecryptReportJobDataErrorMessage env err))))"

definition getFormatsMap ::
  "'tok env \<Rightarrow> jsval \<Rightarrow> ui_settings_client \<Rightarrow> ('tok, formats_map promise) action" where
  "getFormatsMap env indexPattern client =
     bind (start (FieldFormatServiceFactory client))
       (\<lambda>_. after_await (fieldFormatServiceFactory env client)
          (\<lambda>fieldFormats. return (fieldFormatMapFactory env indexPattern fieldFormats)))"

definition getUiSettings ::
  "'tok env \<Rightarrow> logger \<Rightarrow> ui_settings_client \<Rightarrow> ('tok, ui_settings promise) action" where
  "getUiSettings env logger client =
     bind (start (UiSettingsGet client ''csv:separator''))
       (\<lambda>_. bind (start (UiSettingsGet client ''csv:quoteValues''))
       (\<lambda>_. bind (start (UiSettingsGet client ''dateFormat:tz''))
       (\<lambda>_. after_await
          (Promise_all3
             (uiSettings_get env client ''csv:separator'')
             (uiSettings_get env client ''csv:quoteValues'')
             (uiSettings_get env client ''dateFormat:tz''))
          (\<lambda>(separator, quoteValues, timezone).
             bind (if timezone = Str ''Browser''
                   then logger_warn logger (dateFormateSetting env)
                   else return ())
               (\<lambda>_. return
                  \<lparr>separator = separator, quoteValues = quoteValues, timezone = timezone\<rparr>)))))"

definition executeJob ::
  "'tok env \<Rightarrow> crypto \<Rightarrow> logger \<Rightarrow> jsval \<Rightarrow> string \<Rightarrow> 'tok \<Rightarrow> ('tok, job_result) action" where
  "executeJob env crypto logger serverBasePath jobId cancellationToken =
     bind (await GetElasticsearchService (getElasticsearchService env)) (\<lambda>elasticsearch.
     let jobLogger = Clone logger [jobId] in
     bind read_job (\<lambda>job.
     bind (decryptHeaders env crypto logger (headers job)) (\<lambda>decrypted.
     let fakeRequest = KibanaRequest_from env
           \<lparr>req_headers = decrypted,
            req_getBasePath = (if truthy (basePath job) then basePath job else serverBasePath),
            req_path = ''/'',
            req_route_settings = Obj [],
            req_url_href = ''/'',
            req_raw_req_url = ''/''\<rparr>;
         callEndpoint = CallEndpoint (asScoped env elasticsearch fakeRequest) in
     bind (await (GetSavedObjectsClient fakeRequest) (getSavedObjectsClient env fakeRequest))
       (\<lambda>savedObjectsClient.
     bind (await (GetUiSettingsServiceFactory savedObjectsClient)
             (getUiSettingsServiceFactory env savedObjectsClient))
       (\<lambda>uiSettingsClient.
     bind (getFormatsMap env (indexPatternSavedObject job) uiSettingsClient) (\<lambda>formatsMapPromise.
     bind (getUiSettings env logger uiSettingsClient) (\<lambda>uiSettingsPromise.
     bind (settle (snd (Promise_all2 formatsMapPromise uiSettingsPromise)))
       (\<lambda>(formatsMap, uiSettings).
     let bom = (if truthy (config_get env [''csv'', ''useByteOrderMarkEncoding''])
                then CSV_BOM_CHARS env else []);
         args = \<lparr>arg_searchRequest = searchRequest job,
                 arg_fields = fields' job,
                 arg_metaFields = metaFields job,
                 arg_conflictedTypesFields = conflictedTypesFields job,
                 arg_callEndpoint = callEndpoint,
                 arg_cancellationToken = cancellationToken,
                 arg_formatsMap = formatsMap,
                 arg_settings =
                   \<lparr>separator = separator uiSettings,
                    quoteValues = quoteValues uiSettings,
                    timezone = timezone uiSettings,
                    checkForFormulas = config_get env [''csv'', ''checkForFormulas''],
                    maxSizeBytes = config_get env [''csv'', ''maxSizeBytes''],
                    scroll = config_get env [''csv'', ''scroll'']\<rparr>\<rparr> in
     bind (await (GenerateCsv jobLogger args) (generateCsv env jobLogger args)) (\<lambda>generated.
     return
       \<lparr>content_type = ''text/csv'',
        content = bom @ csv_content generated,
        max_size_reached = csv_maxSizeReached generated,
        size_bytes = csv_size generated,
        csv_contains_formulas = csv_containsFormulas generated\<rparr>)))))))))"

definition executeJobFactory ::
  "'tok env \<Rightarrow> logger \<Rightarrow> string \<Rightarrow> 'tok \<Rightarrow> ('tok, job_result) action" where
  "executeJobFactory env parentLogger =
     (let crypto = Crypto (config_get env [''encryptionKey'']);
          logger = Clone parentLogger [CSV_JOB_TYPE env, ''execute-job''];
          serverBasePath = kbnConfig_get env [''server'', ''basePath'']
      in executeJob env crypto logger serverBasePath)"

subsection \<open>Notions used in the statements\<close>

text \<open>What \<open>getUiSettings\<close> logs once the three settings are read.\<close>

definition warning :: "'tok env \<Rightarrow> logger \<Rightarrow> jsval \<Rightarrow> log_entry list" where
  "warning env logger tz =
     (if tz = Str ''Browser'' then [LogWarn logger (dateFormateSetting env)] else [])"

text \<open>An action that leaves the job object as it found it, whatever its outcome.\<close>

definition keeps_payload :: "('tok, 'a) action \<Rightarrow> bool" where
  "keeps_payload m = (\<forall>w. payload (snd (m w)) = payload w)"

text \<open>The calls of \<open>generateCsv\<close> among the operations started: logger and arguments.\<close>

definition generateCsv_calls :: "'tok call list \<Rightarrow> (logger \<times> 'tok generate_csv_args) list" where
  "generateCsv_calls cs = [(l, a). GenerateCsv l a \<leftarrow> cs]"

text \<open>An action that never starts \<open>generateCsv\<close>.\<close>

definition no_generateCsv :: "('tok, 'a) action \<Rightarrow> bool" where
  "no_generateCsv m = (\<forall>w. \<exists>cs. calls (snd (m w)) = calls w @ cs \<and> generateCsv_calls cs = [])"

text \<open>
  An action that starts \<open>generateCsv\<close> at most once, and then with a logger and
  arguments that satisfy \<open>P\<close>.
\<close>

definition at_most_once ::
  "(logger \<Rightarrow> 'tok generate_csv_args \<Rightarrow> bool) \<Rightarrow> ('tok, 'a) action \<Rightarrow> bool" where
  "at_most_once P m =
     (\<forall>w. \<exists>cs. calls (snd (m w)) = calls w @ cs
        \<and> (generateCsv_calls cs = [] \<or> (\<exists>l a. generateCsv_calls cs = [(l, a)] \<and> P l a)))"

text \<open>Two actions that, from the same state, have the same outcome and log the same.\<close>

definition same_outcome :: "('tok, 'a) action \<Rightarrow> ('tok, 'a) action \<Rightarrow> bool" where
  "same_outcome m m' =
     (\<forall>w. fst (m w) = fst (m' w) \<and> logged (snd (m w)) = logged (snd (m' w)))"

subsection \<open>Sample collaborators and jobs\<close>

text \<open>
  Collaborators that all succeed (the translation returns the default message as it is),
  a job whose headers they can decrypt, and the run of executeJob on them.
\<close>

definition sample_generated :: generate_csv_result where
  "sample_generated =
     \<lparr>csv_content = ''a,b'', csv_maxSizeReached = Bool False, csv_size = Num 3,
      csv_containsFormulas = Bool False\<rparr>"

definition sample_env :: "nat env" where
  "sample_env =
     \<lparr>CSV_JOB_TYPE = ''csv'',
      CSV_BOM_CHARS = ''BOM'',
      config_get = (\<lambda>path.
        if path = [''csv'', ''useByteOrderMarkEncoding''] then Bool True
        else if path = [''csv'', ''maxSizeBytes''] then Num 10485760
        else Undefined),
      kbnConfig_get = (\<lambda>path. Str ''/kbn''),
      translate = (\<lambda>ident defaultMessage vals. defaultMessage),
      getElasticsearchService = Inr (ElasticsearchService 0),
      decrypt = (\<lambda>c h.
        if h = ''sealed'' then Inr (Obj [(''authorization'', Str ''Basic abc'')])
        else Inl (JsError ''Error'' ''unable to authenticate data'')),
      KibanaRequest_from = (\<lambda>r. KibanaRequest 1),
      asScoped = (\<lambda>es r. CallAsCurrentUser 2),
      getSavedObjectsClient = (\<lambda>r. Inr (SavedObjectsClient 3)),
      getUiSettingsServiceFactory = (\<lambda>s. Inr (UiSettingsClient 4)),
      fieldFormatServiceFactory = (\<lambda>c. (5, Inr (FieldFormats 5))),
      fieldFormatMapFactory = (\<lambda>ip ff. FormatsMap 6),
      uiSettings_get = (\<lambda>c k.
        if k = ''csv:separator'' then (1, Inr (Str '',''))
        else if k = ''csv:quoteValues'' then (2, Inr (Bool True))
        else (3, Inr (Str ''Browser''))),
      generateCsv = (\<lambda>l a. Inr sample_generated)\<rparr>"

text \<open>The same collaborators, with an Elasticsearch service that cannot be obtained.\<close>

definition sample_env_no_es :: "nat env" where
  "sample_env_no_es =
     sample_env\<lparr>getElasticsearchService := Inl (new_Error ''Elasticsearch is not available'')\<rparr>"

definition sample_job :: JobDocPayloadDiscoverCsv where
  "sample_job =
     \<lparr>searchRequest = Obj [(''index'', Str ''logs'')],
      fields' = Arr [Str ''a'', Str ''b''],
      indexPatternSavedObject = Obj [],
      metaFields = Arr [],
      conflictedTypesFields = Arr [],
      headers = Str ''sealed'',
      basePath = Str ''/s/ops''\<rparr>"

definition sample_world :: "JobDocPayloadDiscoverCsv \<Rightarrow> nat world" where
  "sample_world job = \<lparr>payload = job, logged = [], calls = []\<rparr>"

definition sample_logger :: logger where
  "sample_logger = Clone (ParentLogger 0) [''csv'', ''execute-job'']"

definition sample_args :: "nat generate_csv_args" where
  "sample_args =
     \<lparr>arg_searchRequest = Obj [(''index'', Str ''logs'')],
      arg_fields = Arr [Str ''a'', Str ''b''],
      arg_metaFields = Arr [],
      arg_conflictedTypesFields = Arr [],
      arg_callEndpoint = CallEndpoint (CallAsCurrentUser 2),
      arg_cancellationToken = 7,
      arg_formatsMap = FormatsMap 6,
      arg_settings =
        \<lparr>separator = Str '','', quoteValues = Bool True, timezone = Str ''Browser'',
         checkForFormulas = Undefined, maxSizeBytes = Num 10485760, scroll = Undefined\<rparr>\<rparr>"

section \<open>Properties of the alert list selectors\<close>

lemma assign_key_apply:
  "assign_key q d a k =
     (if k = a then
        (case q a of
           None \<Rightarrow> d a
         | Some (QString v) \<Rightarrow> Some (Some v)
         | Some (QArray vs) \<Rightarrow> Some (if vs = [] then None else Some (last vs)))
      else d k)"
  by (simp add: assign_key_def split: option.splits qs_value.splits)

lemma foldl_assign_key:
  "foldl (assign_key q) d ks k =
     (if k \<in> set ks then
        (case q k of
           None \<Rightarrow> d k
         | Some (QString v) \<Rightarrow> Some (Some v)
         | Some (QArray vs) \<Rightarrow> Some (if vs = [] then None else Some (last vs)))
      else d k)"
proof (induction ks arbitrary: d)
  case Nil
  show ?case by simp
next
  case (Cons a ks)
  have "foldl (assign_key q) d (a # ks) k = foldl (assign_key q) (assign_key q d a) ks k"
    by simp
  also have "\<dots> =
     (if k \<in> set ks then
        (case q k of
           None \<Rightarrow> assign_key q d a k
         | Some (QString v) \<Rightarrow> Some (Some v)
         | Some (QArray vs) \<Rightarrow> Some (if vs = [] then None else Some (last vs)))
      else assign_key q d a k)"
    by (rule Cons.IH)
  finally have step: "foldl (assign_key q) d (a # ks) k =
     (if k \<in> set ks then
        (case q k of
           None \<Rightarrow> assign_key q d a k
         | Some (QString v) \<Rightarrow> Some (Some v)
         | Some (QArray vs) \<Rightarrow> Some (if vs = [] then None else Some (last vs)))
      else assign_key q d a k)" .
  show ?case
    unfolding step by (simp add: assign_key_apply split: option.splits qs_value.splits)
qed

lemma uiQueryParams_location:
  "uiQueryParams L state = uiQueryParams_of L (location state)"
  by (simp add: uiQueryParams_def createSelector_def)

text \<open>
  C8: isOnAlertPage returns true exactly when the state has a location and the pathname
  of that location is \<open>/alerts\<close>. With no location it returns false; the pathname is
  not read then, so nothing is thrown.
\<close>

theorem isOnAlertPage_iff:
  "(isOnAlertPage state \<longleftrightarrow> (\<exists>loc. location state = Some loc \<and> pathname loc = ''/alerts''))
   \<and> isOnAlertPage (state\<lparr>location := None\<rparr>) = False"
  by (simp add: isOnAlertPage_def split: option.splits)

text \<open>
  C4: the selectors built on the query string depend on the location alone. Two states
  with the same location, whatever their other fields and whatever the types of their
  alert data, give the same outcome for uiQueryParams, searchBarQuery,
  encodedSearchBarDateRange, searchBarDateRange, searchBarFilters, apiQueryParams and
  hasSelectedAlert.
\<close>

theorem selectors_depend_on_location_only:
  fixes s1 :: "('a, 'd, 'p) AlertListState" and s2 :: "('b, 'e, 'q) AlertListState"
  assumes "location s1 = location s2"
  shows "uiQueryParams L s1 = uiQueryParams L s2
    \<and> searchBarQuery L s1 = searchBarQuery L s2
    \<and> encodedSearchBarDateRange L s1 = encodedSearchBarDateRange L s2
    \<and> searchBarDateRange L s1 = searchBarDateRange L s2
    \<and> searchBarFilters L s1 = searchBarFilters L s2
    \<and> apiQueryParams L s1 = apiQueryParams L s2
    \<and> hasSelectedAlert L s1 = hasSelectedAlert L s2"
proof -
  have u: "uiQueryParams L s1 = uiQueryParams L s2"
    using assms by (simp add: uiQueryParams_location)
  have e: "encodedSearchBarDateRange L s1 = encodedSearchBarDateRange L s2"
    using u by (simp add: encodedSearchBarDateRange_def createSelector_def)
  show ?thesis
    unfolding searchBarQuery_def searchBarDateRange_def searchBarFilters_def
      apiQueryParams_def hasSelectedAlert_def createSelector_def createSelector2_def u e
    by simp
qed

theorem selectors_depend_on_location_only_witness:
  "location sample_state = location sample_state2
   \<and> sample_state \<noteq> sample_state2
   \<and> uiQueryParams sample_libs sample_state = uiQueryParams sample_libs sample_state2
   \<and> searchBarQuery sample_libs sample_state = searchBarQuery sample_libs sample_state2
   \<and> encodedSearchBarDateRange sample_libs sample_state
       = encodedSearchBarDateRange sample_libs sample_state2
   \<and> searchBarDateRange sample_libs sample_state = searchBarDateRange sample_libs sample_state2
   \<and> searchBarFilters sample_libs sample_state = searchBarFilters sample_libs sample_state2
   \<and> apiQueryParams sample_libs sample_state = apiQueryParams sample_libs sample_state2
   \<and> hasSelectedAlert sample_libs sample_state = hasSelectedAlert sample_libs sample_state2"
proof -
  have same: "location sample_state = location sample_state2"
    by (simp add: sample_state_def sample_state2_def)
  have differ: "sample_state \<noteq> sample_state2"
    by (simp add: sample_state_def sample_state2_def)
  show ?thesis
    using same differ selectors_depend_on_location_only [OF same, of sample_libs] by simp
qed

text \<open>
  C9: for a state with a location whose query string parses, uiQueryParams returns an
  object whose properties are among the six keys; a key the parsed query does not have
  is not a property of the result; a key with one value gets that value, and a key with
  several values gets the last of them.
\<close>

theorem uiQueryParams_keys:
  assumes loc: "location state = Some loc"
    and parsed: "qs_parse L (drop 1 (search loc)) = Inr q"
  shows "\<exists>d. uiQueryParams L state = Inr d
    \<and> dom d \<subseteq> set ui_keys
    \<and> (\<forall>k. k \<notin> set ui_keys \<longrightarrow> d k = None)
    \<and> (\<forall>k. q k = None \<longrightarrow> d k = None)
    \<and> (\<forall>k v. k \<in> set ui_keys \<longrightarrow> q k = Some (QString v) \<longrightarrow> d k = Some (Some v))
    \<and> (\<forall>k vs. k \<in> set ui_keys \<longrightarrow> q k = Some (QArray vs) \<longrightarrow> vs \<noteq> [] \<longrightarrow>
          d k = Some (Some (last vs)))"
proof -
  let ?d = "foldl (assign_key q) Map.empty ui_keys"
  have r: "uiQueryParams L state = Inr ?d"
    using loc parsed by (simp add: uiQueryParams_location uiQueryParams_of_def)
  have "dom ?d \<subseteq> set ui_keys"
    by (auto simp: foldl_assign_key split: if_splits)
  moreover have "\<forall>k. k \<notin> set ui_keys \<longrightarrow> ?d k = None"
    by (simp add: foldl_assign_key)
  moreover have "\<forall>k. q k = None \<longrightarrow> ?d k = None"
    by (simp add: foldl_assign_key)
  moreover have "\<forall>k v. k \<in> set ui_keys \<longrightarrow> q k = Some (QString v) \<longrightarrow> ?d k = Some (Some v)"
    by (simp add: foldl_assign_key)
  moreover have "\<forall>k vs. k \<in> set ui_keys \<longrightarrow> q k = Some (QArray vs) \<longrightarrow> vs \<noteq> [] \<longrightarrow>
          ?d k = Some (Some (last vs))"
    by (simp add: foldl_assign_key)
  ultimately show ?thesis using r by blast
qed

lemma sample_parsed:
  "qs_parse sample_libs (drop 1 (search sample_location)) = Inr sample_query"
  by (simp add: sample_libs_def sample_location_def sample_query_def)

theorem uiQueryParams_keys_witness:
  "\<exists>d. uiQueryParams sample_libs sample_state = Inr d
     \<and> d ''page_size'' = Some (Some ''10'')
     \<and> d ''date_range'' = Some (Some ''b'')
     \<and> d ''query'' = None
     \<and> d ''tab'' = None"
proof -
  have loc: "location sample_state = Some sample_location"
    by (simp add: sample_state_def)
  from uiQueryParams_keys [OF loc sample_parsed]
  obtain d where d: "uiQueryParams sample_libs sample_state = Inr d"
    and other: "\<forall>k. k \<notin> set ui_keys \<longrightarrow> d k = None"
    and absent: "\<forall>k. sample_query k = None \<longrightarrow> d k = None"
    and single: "\<forall>k v. k \<in> set ui_keys \<longrightarrow> sample_query k = Some (QString v) \<longrightarrow> d k = Some (Some v)"
    and multi: "\<forall>k vs. k \<in> set ui_keys \<longrightarrow> sample_query k = Some (QArray vs) \<longrightarrow> vs \<noteq> [] \<longrightarrow>
          d k = Some (Some (last vs))"
    by blast
  have "d ''page_size'' = Some (Some ''10'')"
    using single by (simp add: ui_keys_def sample_query_def)
  moreover have "d ''date_range'' = Some (Some ''b'')"
    using multi [rule_format, of "''date_range''" "[''a'', ''b'']"]
    by (simp add: ui_keys_def sample_query_def)
  moreover have "d ''query'' = None"
    using absent by (simp add: sample_query_def)
  moreover have "d ''tab'' = None"
    using other by (simp add: ui_keys_def)
  ultimately show ?thesis using d by blast
qed








section \<open>Properties of executeJob\<close>

lemma bind_Inr_iff:
  "bind m f w = (Inr r, w') \<longleftrightarrow> (\<exists>x w1. m w = (Inr x, w1) \<and> f x w1 = (Inr r, w'))"
  by (auto simp: bind_def split: prod.splits sum.splits)

lemma return_Inr_iff: "return x w = (Inr r, w') \<longleftrightarrow> r = x \<and> w' = w"
  by (auto simp: return_def)

lemma settle_Inr_iff: "settle o1 w = (Inr r, w') \<longleftrightarrow> o1 = Inr r \<and> w' = w"
  by (auto simp: settle_def return_def throw_def split: sum.splits)

lemma start_iff: "start c w = (r, w') \<longleftrightarrow> r = Inr () \<and> w' = w\<lparr>calls := calls w @ [c]\<rparr>"
  by (auto simp: start_def)

lemma await_Inr_iff:
  "await c o1 w = (Inr r, w') \<longleftrightarrow> o1 = Inr r \<and> w' = w\<lparr>calls := calls w @ [c]\<rparr>"
  by (auto simp: await_def bind_Inr_iff start_iff settle_Inr_iff)

lemma read_job_iff: "read_job w = (r, w') \<longleftrightarrow> r = Inr (payload w) \<and> w' = w"
  by (auto simp: read_job_def)

lemma decryptHeaders_Inr_iff:
  "decryptHeaders env crypto logger hdrs w = (Inr d, w') \<longleftrightarrow>
     (\<exists>h. hdrs = Str h \<and> decrypt env crypto h = Inr d
          \<and> w' = w\<lparr>calls := calls w @ [Decrypt crypto h]\<rparr>)"
  by (cases hdrs)
    (auto simp: decryptHeaders_def try_catch_def throw_def bind_def logger_error_def
      await_def start_def settle_def return_def split: sum.splits prod.splits)

lemma getFormatsMap_iff:
  "getFormatsMap env ip client w = (r, w') \<longleftrightarrow>
     r = Inr (map_promise (fieldFormatMapFactory env ip) (fieldFormatServiceFactory env client))
     \<and> w' = w\<lparr>calls := calls w @ [FieldFormatServiceFactory client]\<rparr>"
  by (auto simp: getFormatsMap_def bind_def start_def after_await_def return_def map_promise_def
      split: sum.splits prod.splits)


lemma getUiSettings_iff:
  "getUiSettings env logger client w = (r, w') \<longleftrightarrow>
     (let p = Promise_all3
             (uiSettings_get env client ''csv:separator'')
             (uiSettings_get env client ''csv:quoteValues'')
             (uiSettings_get env client ''dateFormat:tz'')
      in r = Inr (map_promise
                   (\<lambda>(s, q, t). \<lparr>separator = s, quoteValues = q, timezone = t\<rparr>) p)
       \<and> w' = w\<lparr>calls := calls w @
                   [UiSettingsGet client ''csv:separator'',
                    UiSettingsGet client ''csv:quoteValues'',
                    UiSettingsGet client ''dateFormat:tz''],
                 logged := logged w @
                   (case snd p of Inl e \<Rightarrow> [] | Inr (s, q, t) \<Rightarrow> warning env logger t)\<rparr>)"
  by (auto simp: getUiSettings_def bind_def start_def after_await_def return_def map_promise_def
      logger_warn_def warning_def Let_def
      split: sum.splits prod.splits)

lemma keeps_return: "keeps_payload (return x)"
  by (simp add: keeps_payload_def return_def)

lemma keeps_throw: "keeps_payload (throw e)"
  by (simp add: keeps_payload_def throw_def)

lemma keeps_read_job: "keeps_payload read_job"
  by (simp add: keeps_payload_def read_job_def)

lemma keeps_start: "keeps_payload (start c)"
  by (simp add: keeps_payload_def start_def)

lemma keeps_logger_error: "keeps_payload (logger_error l e)"
  by (simp add: keeps_payload_def logger_error_def)

lemma keeps_logger_warn: "keeps_payload (logger_warn l m)"
  by (simp add: keeps_payload_def logger_warn_def)

lemma keeps_settle: "keeps_payload (settle r)"
  by (cases r) (simp_all add: settle_def keeps_return keeps_throw)

lemma keeps_bind:
  assumes "keeps_payload m" and "\<And>x. keeps_payload (f x)"
  shows "keeps_payload (bind m f)"
  unfolding keeps_payload_def
proof
  fix w
  show "payload (snd (bind m f w)) = payload w"
  proof (cases "m w")
    case (Pair r w1)
    have w1: "payload w1 = payload w"
      using assms(1) Pair by (metis keeps_payload_def snd_conv)
    show ?thesis
    proof (cases r)
      case (Inl e)
      with Pair w1 show ?thesis by (simp add: bind_def)
    next
      case (Inr x)
      have "payload (snd (f x w1)) = payload w1"
        using assms(2) by (simp add: keeps_payload_def)
      with Pair Inr w1 show ?thesis by (simp add: bind_def)
    qed
  qed
qed

lemma keeps_try_catch:
  assumes "keeps_payload m" and "\<And>e. keeps_payload (h e)"
  shows "keeps_payload (try_catch m h)"
  unfolding keeps_payload_def
proof
  fix w
  show "payload (snd (try_catch m h w)) = payload w"
  proof (cases "m w")
    case (Pair r w1)
    have w1: "payload w1 = payload w"
      using assms(1) Pair by (metis keeps_payload_def snd_conv)
    show ?thesis
    proof (cases r)
      case (Inl e)
      have "payload (snd (h e w1)) = payload w1"
        using assms(2) by (simp add: keeps_payload_def)
      with Pair Inl w1 show ?thesis by (simp add: try_catch_def)
    next
      case (Inr x)
      with Pair w1 show ?thesis by (simp add: try_catch_def)
    qed
  qed
qed

lemma keeps_after_await:
  assumes "\<And>x. keeps_payload (rest x)"
  shows "keeps_payload (after_await p rest)"
  unfolding keeps_payload_def
proof
  fix w
  show "payload (snd (after_await p rest w)) = payload w"
  proof (cases "snd p")
    case (Inl e)
    then show ?thesis by (simp add: after_await_def)
  next
    case (Inr x)
    have "payload (snd (rest x w)) = payload w"
      using assms by (simp add: keeps_payload_def)
    with Inr show ?thesis by (auto simp: after_await_def split: prod.splits)
  qed
qed

lemma keeps_await: "keeps_payload (await c r)"
  unfolding await_def by (intro keeps_bind keeps_start keeps_settle)

lemma keeps_decryptHeaders: "keeps_payload (decryptHeaders env crypto logger hdrs)"
  unfolding decryptHeaders_def
  by (cases hdrs) (auto intro!: keeps_try_catch keeps_bind keeps_await keeps_throw keeps_logger_error)

lemma keeps_getFormatsMap: "keeps_payload (getFormatsMap env ip client)"
  unfolding getFormatsMap_def
  by (intro keeps_bind keeps_start keeps_after_await keeps_return)

lemma keeps_getUiSettings: "keeps_payload (getUiSettings env logger client)"
  unfolding getUiSettings_def
  by (auto intro!: keeps_bind keeps_start keeps_after_await keeps_return keeps_logger_warn
      split: prod.splits)

lemma keeps_executeJob:
  "keeps_payload (executeJob env crypto logger serverBasePath jobId token)"
  unfolding executeJob_def Let_def
  by (auto intro!: keeps_bind keeps_await keeps_read_job keeps_decryptHeaders keeps_getFormatsMap
      keeps_getUiSettings keeps_settle keeps_return split: prod.splits)

text \<open>
  C3: executeJob never writes to the job object. After an invocation, whether it resolved
  or threw, the object holds in each of its fields what it held before.
\<close>

theorem executeJob_payload_unchanged:
  "payload (snd (executeJob env crypto logger serverBasePath jobId token w)) = payload w"
  using keeps_executeJob [of env crypto logger serverBasePath jobId token]
  by (simp add: keeps_payload_def)

lemma all2_resolved:
  "snd (Promise_all2 a b) = Inr v \<longleftrightarrow>
     (\<exists>t1 x t2 y. a = (t1, Inr x) \<and> b = (t2, Inr y) \<and> v = (x, y))"
  by (cases a; cases b) (auto simp: Promise_all2_def split: sum.splits)

lemma getFormatsMap_resolved:
  "getFormatsMap env ip client w = (Inr (t, Inr fm), w') \<longleftrightarrow>
     (\<exists>ff. fieldFormatServiceFactory env client = (t, Inr ff)
        \<and> fm = fieldFormatMapFactory env ip ff
        \<and> w' = w\<lparr>calls := calls w @ [FieldFormatServiceFactory client]\<rparr>)"
proof -
  obtain t0 o0 where p0: "fieldFormatServiceFactory env client = (t0, o0)"
    by (cases "fieldFormatServiceFactory env client")
  show ?thesis
    unfolding getFormatsMap_iff p0
    by (cases o0) (auto simp: map_promise_def)
qed

lemma getUiSettings_resolved:
  "getUiSettings env logger client w = (Inr (t, Inr us), w') \<longleftrightarrow>
     (\<exists>t1 sep t2 quo t3 tz.
          uiSettings_get env client ''csv:separator'' = (t1, Inr sep)
        \<and> uiSettings_get env client ''csv:quoteValues'' = (t2, Inr quo)
        \<and> uiSettings_get env client ''dateFormat:tz'' = (t3, Inr tz)
        \<and> t = max (max t1 t2) t3
        \<and> us = \<lparr>separator = sep, quoteValues = quo, timezone = tz\<rparr>
        \<and> w' = w\<lparr>calls := calls w @
                   [UiSettingsGet client ''csv:separator'',
                    UiSettingsGet client ''csv:quoteValues'',
                    UiSettingsGet client ''dateFormat:tz''],
                 logged := logged w @ warning env logger tz\<rparr>)"
proof -
  obtain t1 o1 where p1: "uiSettings_get env client ''csv:separator'' = (t1, o1)"
    by (cases "uiSettings_get env client ''csv:separator''")
  obtain t2 o2 where p2: "uiSettings_get env client ''csv:quoteValues'' = (t2, o2)"
    by (cases "uiSettings_get env client ''csv:quoteValues''")
  obtain t3 o3 where p3: "uiSettings_get env client ''dateFormat:tz'' = (t3, o3)"
    by (cases "uiSettings_get env client ''dateFormat:tz''")
  show ?thesis
    unfolding getUiSettings_iff Let_def p1 p2 p3
    by (cases o1; cases o2; cases o3)
      (auto simp: Promise_all3_def Promise_all2_def map_promise_def)
qed

lemma executeJob_Inr:
  assumes "executeJob env crypto logger serverBasePath jobId token w = (Inr result, w')"
  shows "\<exists>elasticsearch h decrypted savedObjectsClient uiSettingsClient
            t0 fieldFormats t1 sep t2 quo t3 tz generated.
      getElasticsearchService env = Inr elasticsearch
    \<and> headers (payload w) = Str h
    \<and> decrypt env crypto h = Inr decrypted
    \<and> (let fakeRequest = KibanaRequest_from env
                \<lparr>req_headers = decrypted,
                 req_getBasePath = (if truthy (basePath (payload w)) then basePath (payload w)
                                    else serverBasePath),
                 req_path = ''/'', req_route_settings = Obj [], req_url_href = ''/'',
                 req_raw_req_url = ''/''\<rparr>;
             args = \<lparr>arg_searchRequest = searchRequest (payload w),
                     arg_fields = fields' (payload w),
                     arg_metaFields = metaFields (payload w),
                     arg_conflictedTypesFields = conflictedTypesFields (payload w),
                     arg_callEndpoint = CallEndpoint (asScoped env elasticsearch fakeRequest),
                     arg_cancellationToken = token,
                     arg_formatsMap = fieldFormatMapFactory env
                        (indexPatternSavedObject (payload w)) fieldFormats,
                     arg_settings =
                       \<lparr>separator = sep, quoteValues = quo, timezone = tz,
                        checkForFormulas = config_get env [''csv'', ''checkForFormulas''],
                        maxSizeBytes = config_get env [''csv'', ''maxSizeBytes''],
                        scroll = config_get env [''csv'', ''scroll'']\<rparr>\<rparr>
         in getSavedObjectsClient env fakeRequest = Inr savedObjectsClient
          \<and> getUiSettingsServiceFactory env savedObjectsClient = Inr uiSettingsClient
          \<and> fieldFormatServiceFactory env uiSettingsClient = (t0, Inr fieldFormats)
          \<and> uiSettings_get env uiSettingsClient ''csv:separator'' = (t1, Inr sep)
          \<and> uiSettings_get env uiSettingsClient ''csv:quoteValues'' = (t2, Inr quo)
          \<and> uiSettings_get env uiSettingsClient ''dateFormat:tz'' = (t3, Inr tz)
          \<and> generateCsv env (Clone logger [jobId]) args = Inr generated
          \<and> w' = w\<lparr>calls := calls w @
                 [GetElasticsearchService,
                  Decrypt crypto h,
                  GetSavedObjectsClient fakeRequest,
                  GetUiSettingsServiceFactory savedObjectsClient,
                  FieldFormatServiceFactory uiSettingsClient,
                  UiSettingsGet uiSettingsClient ''csv:separator'',
                  UiSettingsGet uiSettingsClient ''csv:quoteValues'',
                  UiSettingsGet uiSettingsClient ''dateFormat:tz'',
                  GenerateCsv (Clone logger [jobId]) args],
               logged := logged w @ warning env logger tz\<rparr>
          \<and> result =
               \<lparr>content_type = ''text/csv'',
                content = (if truthy (config_get env [''csv'', ''useByteOrderMarkEncoding''])
                           then CSV_BOM_CHARS env else []) @ csv_content generated,
                max_size_reached = csv_maxSizeReached generated,
                size_bytes = csv_size generated,
                csv_contains_formulas = csv_containsFormulas generated\<rparr>)"
  using assms
  unfolding executeJob_def Let_def
  apply (simp add: bind_Inr_iff await_Inr_iff read_job_iff decryptHeaders_Inr_iff
      settle_Inr_iff return_Inr_iff all2_resolved split_paired_all
      split del: if_split cong: if_cong)
  apply (elim exE conjE)
  apply (simp add: getFormatsMap_resolved getUiSettings_resolved split del: if_split cong: if_cong)
  apply (elim exE conjE)
  apply (simp split del: if_split cong: if_cong)
  done

lemma generateCsv_calls_simps:
  "generateCsv_calls [] = []"
  "generateCsv_calls (cs @ cs') = generateCsv_calls cs @ generateCsv_calls cs'"
  "generateCsv_calls (GenerateCsv l a # cs) = (l, a) # generateCsv_calls cs"
  "generateCsv_calls (GetElasticsearchService # cs) = generateCsv_calls cs"
  "generateCsv_calls (Decrypt c h # cs) = generateCsv_calls cs"
  "generateCsv_calls (GetSavedObjectsClient r # cs) = generateCsv_calls cs"
  "generateCsv_calls (GetUiSettingsServiceFactory s # cs) = generateCsv_calls cs"
  "generateCsv_calls (FieldFormatServiceFactory u # cs) = generateCsv_calls cs"
  "generateCsv_calls (UiSettingsGet u k # cs) = generateCsv_calls cs"
  by (simp_all add: generateCsv_calls_def)

lemma quiet_unchanged:
  assumes "\<And>w. calls (snd (m w)) = calls w"
  shows "no_generateCsv m"
  unfolding no_generateCsv_def
proof
  fix w
  have "calls (snd (m w)) = calls w @ [] \<and> generateCsv_calls [] = []"
    using assms by (simp add: generateCsv_calls_simps)
  then show "\<exists>cs. calls (snd (m w)) = calls w @ cs \<and> generateCsv_calls cs = []"
    by blast
qed

lemma quiet_return: "no_generateCsv (return x)"
  by (rule quiet_unchanged) (simp add: return_def)

lemma quiet_throw: "no_generateCsv (throw e)"
  by (rule quiet_unchanged) (simp add: throw_def)

lemma quiet_read_job: "no_generateCsv read_job"
  by (rule quiet_unchanged) (simp add: read_job_def)

lemma quiet_logger_error: "no_generateCsv (logger_error l e)"
  by (rule quiet_unchanged) (simp add: logger_error_def)

lemma quiet_logger_warn: "no_generateCsv (logger_warn l m)"
  by (rule quiet_unchanged) (simp add: logger_warn_def)

lemma quiet_settle: "no_generateCsv (settle r)"
  by (rule quiet_unchanged) (simp add: settle_def return_def throw_def split: sum.splits)

lemma quiet_start:
  assumes "generateCsv_calls [c] = []"
  shows "no_generateCsv (start c)"
  unfolding no_generateCsv_def
proof
  fix w :: "'a world"
  have "calls (snd (start c w)) = calls w @ [c]" by (simp add: start_def)
  with assms show "\<exists>cs. calls (snd (start c w)) = calls w @ cs \<and> generateCsv_calls cs = []"
    by blast
qed

lemma quiet_bind:
  assumes "no_generateCsv m" and "\<And>x. no_generateCsv (f x)"
  shows "no_generateCsv (bind m f)"
  unfolding no_generateCsv_def
proof
  fix w
  obtain r w1 where mw: "m w = (r, w1)" by (cases "m w")
  from assms(1) mw obtain cs where cs: "calls w1 = calls w @ cs" "generateCsv_calls cs = []"
    unfolding no_generateCsv_def by (metis snd_conv)
  show "\<exists>cs. calls (snd (bind m f w)) = calls w @ cs \<and> generateCsv_calls cs = []"
  proof (cases r)
    case (Inl e)
    with mw cs show ?thesis by (auto simp: bind_def)
  next
    case (Inr x)
    from assms(2) [of x] obtain cs' where
      cs': "calls (snd (f x w1)) = calls w1 @ cs'" "generateCsv_calls cs' = []"
      unfolding no_generateCsv_def by blast
    have "calls (snd (bind m f w)) = calls w @ (cs @ cs')"
      using mw Inr cs cs' by (simp add: bind_def)
    moreover have "generateCsv_calls (cs @ cs') = []"
      using cs cs' by (simp add: generateCsv_calls_simps)
    ultimately show ?thesis by blast
  qed
qed

lemma quiet_try_catch:
  assumes "no_generateCsv m" and "\<And>e. no_generateCsv (h e)"
  shows "no_generateCsv (try_catch m h)"
  unfolding no_generateCsv_def
proof
  fix w
  obtain r w1 where mw: "m w = (r, w1)" by (cases "m w")
  from assms(1) mw obtain cs where cs: "calls w1 = calls w @ cs" "generateCsv_calls cs = []"
    unfolding no_generateCsv_def by (metis snd_conv)
  show "\<exists>cs. calls (snd (try_catch m h w)) = calls w @ cs \<and> generateCsv_calls cs = []"
  proof (cases r)
    case (Inr x)
    with mw cs show ?thesis by (auto simp: try_catch_def)
  next
    case (Inl e)
    from assms(2) [of e] obtain cs' where
      cs': "calls (snd (h e w1)) = calls w1 @ cs'" "generateCsv_calls cs' = []"
      unfolding no_generateCsv_def by blast
    have "calls (snd (try_catch m h w)) = calls w @ (cs @ cs')"
      using mw Inl cs cs' by (simp add: try_catch_def)
    moreover have "generateCsv_calls (cs @ cs') = []"
      using cs cs' by (simp add: generateCsv_calls_simps)
    ultimately show ?thesis by blast
  qed
qed

lemma quiet_after_await:
  assumes "\<And>x. no_generateCsv (rest x)"
  shows "no_generateCsv (after_await p rest)"
  unfolding no_generateCsv_def
proof
  fix w
  show "\<exists>cs. calls (snd (after_await p rest w)) = calls w @ cs \<and> generateCsv_calls cs = []"
  proof (cases "snd p")
    case (Inl e)
    then have "calls (snd (after_await p rest w)) = calls w @ []"
      by (simp add: after_await_def)
    then show ?thesis using generateCsv_calls_simps(1) by blast
  next
    case (Inr x)
    from assms [of x] obtain cs where
      "calls (snd (rest x w)) = calls w @ cs" "generateCsv_calls cs = []"
      unfolding no_generateCsv_def by blast
    with Inr show ?thesis by (auto simp: after_await_def split: prod.splits)
  qed
qed

lemma quiet_await:
  assumes "generateCsv_calls [c] = []"
  shows "no_generateCsv (await c r)"
  unfolding await_def by (intro quiet_bind quiet_start quiet_settle assms)

lemma quiet_decryptHeaders: "no_generateCsv (decryptHeaders env crypto logger hdrs)"
  unfolding decryptHeaders_def
  by (cases hdrs)
    (auto intro!: quiet_try_catch quiet_bind quiet_await quiet_throw quiet_logger_error
      simp: generateCsv_calls_simps)

lemma quiet_getFormatsMap: "no_generateCsv (getFormatsMap env ip client)"
  unfolding getFormatsMap_def
  by (intro quiet_bind quiet_start quiet_after_await quiet_return)
    (simp add: generateCsv_calls_simps)

lemma quiet_getUiSettings: "no_generateCsv (getUiSettings env logger client)"
  unfolding getUiSettings_def
  by (auto intro!: quiet_bind quiet_start quiet_after_await quiet_return quiet_logger_warn
      simp: generateCsv_calls_simps split: prod.splits)

lemma once_bind:
  assumes "no_generateCsv m" and "\<And>x. at_most_once P (f x)"
  shows "at_most_once P (bind m f)"
  unfolding at_most_once_def
proof
  fix w
  obtain r w1 where mw: "m w = (r, w1)" by (cases "m w")
  from assms(1) mw obtain cs where cs: "calls w1 = calls w @ cs" "generateCsv_calls cs = []"
    unfolding no_generateCsv_def by (metis snd_conv)
  show "\<exists>cs. calls (snd (bind m f w)) = calls w @ cs
        \<and> (generateCsv_calls cs = [] \<or> (\<exists>l a. generateCsv_calls cs = [(l, a)] \<and> P l a))"
  proof (cases r)
    case (Inl e)
    with mw cs show ?thesis by (auto simp: bind_def)
  next
    case (Inr x)
    from assms(2) [of x] obtain cs' where
      cs': "calls (snd (f x w1)) = calls w1 @ cs'"
        "generateCsv_calls cs' = [] \<or> (\<exists>l a. generateCsv_calls cs' = [(l, a)] \<and> P l a)"
      unfolding at_most_once_def by blast
    have "calls (snd (bind m f w)) = calls w @ (cs @ cs')"
      using mw Inr cs cs' by (simp add: bind_def)
    moreover have "generateCsv_calls (cs @ cs') = generateCsv_calls cs'"
      using cs by (simp add: generateCsv_calls_simps)
    ultimately show ?thesis using cs'(2) by metis
  qed
qed

lemma once_last:
  assumes "P l a"
  shows "at_most_once P (bind (await (GenerateCsv l a) r) (\<lambda>x. return (g x)))"
  unfolding at_most_once_def
proof
  fix w :: "'a world"
  have "calls (snd (bind (await (GenerateCsv l a) r) (\<lambda>x. return (g x)) w))
          = calls w @ [GenerateCsv l a]"
    by (cases r) (simp_all add: bind_def await_def start_def settle_def return_def throw_def)
  moreover have "generateCsv_calls [GenerateCsv l a] = [(l, a)]"
    by (simp add: generateCsv_calls_simps)
  ultimately show "\<exists>cs. calls (snd (bind (await (GenerateCsv l a) r) (\<lambda>x. return (g x)) w))
        = calls w @ cs
        \<and> (generateCsv_calls cs = [] \<or> (\<exists>l a. generateCsv_calls cs = [(l, a)] \<and> P l a))"
    using assms by blast
qed

lemma once_executeJob:
  "at_most_once (\<lambda>l a. l = Clone logger [jobId] \<and> arg_cancellationToken a = token)
     (executeJob env crypto logger serverBasePath jobId token)"
  unfolding executeJob_def Let_def
  by (auto intro!: once_bind once_last quiet_await quiet_read_job quiet_decryptHeaders
      quiet_getFormatsMap quiet_getUiSettings quiet_settle
      simp: generateCsv_calls_simps split: prod.splits)

lemma decryptHeaders_missing:
  assumes "\<And>h. hdrs \<noteq> Str h"
  shows "decryptHeaders env crypto logger hdrs w =
     (Inl (new_Error (failedToDecryptReportJobDataErrorMessage env
             (new_Error (missingJobHeadersErrorMessage env)))),
      w\<lparr>logged := logged w @ [LogError logger (new_Error (missingJobHeadersErrorMessage env))]\<rparr>)"
  using assms
  by (cases hdrs)
    (auto simp: decryptHeaders_def try_catch_def throw_def bind_def logger_error_def)

lemma decryptHeaders_rejected:
  assumes "decrypt env crypto h = Inl err"
  shows "decryptHeaders env crypto logger (Str h) w =
     (Inl (new_Error (failedToDecryptReportJobDataErrorMessage env err)),
      w\<lparr>calls := calls w @ [Decrypt crypto h], logged := logged w @ [LogError logger err]\<rparr>)"
  using assms
  by (simp add: decryptHeaders_def try_catch_def throw_def bind_def logger_error_def
      await_def start_def settle_def)

lemma executeJob_until_decrypt:
  assumes "getElasticsearchService env = Inr elasticsearch"
    and "decryptHeaders env crypto logger (headers (payload w))
           (w\<lparr>calls := calls w @ [GetElasticsearchService]\<rparr>) = (Inl e, w')"
  shows "executeJob env crypto logger serverBasePath jobId token w = (Inl e, w')"
  using assms
  by (simp add: executeJob_def Let_def bind_def await_def start_def settle_def return_def
      read_job_def)

lemma executeJob_needs_headers:
  assumes "executeJob env crypto logger serverBasePath jobId token w = (Inr result, w')"
  shows "\<exists>h d. headers (payload w) = Str h \<and> decrypt env crypto h = Inr d"
  using executeJob_Inr [OF assms] by blast

lemma executeJob_Inr_calls:
  assumes "executeJob env crypto logger serverBasePath jobId token w = (Inr result, w')"
  shows "\<exists>a. generateCsv_calls (drop (length (calls w)) (calls w')) = [(Clone logger [jobId], a)]
           \<and> arg_cancellationToken a = token"
  using executeJob_Inr [OF assms]
  apply (simp only: Let_def)
  apply (elim exE conjE)
  apply (simp add: generateCsv_calls_simps split del: if_split cong: if_cong)
  done

lemma sample_factory:
  "executeJobFactory sample_env (ParentLogger 0) =
     executeJob sample_env (Crypto Undefined) sample_logger (Str ''/kbn'')"
  by (simp add: executeJobFactory_def sample_env_def sample_logger_def)

lemma sample_run:
  "executeJob sample_env (Crypto Undefined) sample_logger (Str ''/kbn'') ''job-1'' 7
     (sample_world sample_job) =
   (Inr \<lparr>content_type = ''text/csv'', content = ''BOMa,b'', max_size_reached = Bool False,
         size_bytes = Num 3, csv_contains_formulas = Bool False\<rparr>,
    \<lparr>payload = sample_job,
     logged = [LogWarn sample_logger (dateFormateSetting sample_env)],
     calls =
       [GetElasticsearchService,
        Decrypt (Crypto Undefined) ''sealed'',
        GetSavedObjectsClient (KibanaRequest 1),
        GetUiSettingsServiceFactory (SavedObjectsClient 3),
        FieldFormatServiceFactory (UiSettingsClient 4),
        UiSettingsGet (UiSettingsClient 4) ''csv:separator'',
        UiSettingsGet (UiSettingsClient 4) ''csv:quoteValues'',
        UiSettingsGet (UiSettingsClient 4) ''dateFormat:tz'',
        GenerateCsv (Clone sample_logger [''job-1'']) sample_args]\<rparr>)"
  by (simp add: executeJob_def Let_def bind_def await_def start_def settle_def return_def
      throw_def read_job_def decryptHeaders_def try_catch_def getFormatsMap_def
      getUiSettings_def after_await_def logger_warn_def Promise_all2_def Promise_all3_def
      map_promise_def sample_env_def sample_job_def sample_world_def sample_args_def
      sample_generated_def)

lemma same_bind:
  assumes "\<And>x. same_outcome (f x) (f' x)"
  shows "same_outcome (bind m f) (bind m f')"
  unfolding same_outcome_def
proof
  fix w
  obtain r w1 where mw: "m w = (r, w1)" by (cases "m w")
  show "fst (bind m f w) = fst (bind m f' w)
      \<and> logged (snd (bind m f w)) = logged (snd (bind m f' w))"
  proof (cases r)
    case (Inl e)
    with mw show ?thesis by (simp add: bind_def)
  next
    case (Inr x)
    from assms [of x] have "fst (f x w1) = fst (f' x w1)
        \<and> logged (snd (f x w1)) = logged (snd (f' x w1))"
      by (simp add: same_outcome_def)
    with mw Inr show ?thesis by (simp add: bind_def)
  qed
qed

lemma same_last:
  assumes "r = r'"
  shows "same_outcome (bind (await c r) (\<lambda>x. return (g x))) (bind (await c' r') (\<lambda>x. return (g x)))"
  unfolding same_outcome_def assms
  by (cases r') (simp_all add: bind_def await_def start_def settle_def return_def throw_def)

lemma same_executeJob:
  assumes "\<And>l a. generateCsv env l (a\<lparr>arg_cancellationToken := token'\<rparr>)
                 = generateCsv env l (a\<lparr>arg_cancellationToken := token\<rparr>)"
  shows "same_outcome (executeJob env crypto logger serverBasePath jobId token')
           (executeJob env crypto logger serverBasePath jobId token)"
proof -
  have lit: "generateCsv env l
        \<lparr>arg_searchRequest = sr, arg_fields = fs, arg_metaFields = mf,
         arg_conflictedTypesFields = cf, arg_callEndpoint = ce, arg_cancellationToken = token',
         arg_formatsMap = fm, arg_settings = st\<rparr>
      = generateCsv env l
        \<lparr>arg_searchRequest = sr, arg_fields = fs, arg_metaFields = mf,
         arg_conflictedTypesFields = cf, arg_callEndpoint = ce, arg_cancellationToken = token,
         arg_formatsMap = fm, arg_settings = st\<rparr>" for l sr fs mf cf ce fm st
    using assms [of l
        "\<lparr>arg_searchRequest = sr, arg_fields = fs, arg_metaFields = mf,
          arg_conflictedTypesFields = cf, arg_callEndpoint = ce, arg_cancellationToken = token,
          arg_formatsMap = fm, arg_settings = st\<rparr>"]
    by simp
  show ?thesis
    unfolding executeJob_def Let_def
    apply (intro same_bind)
    apply (simp only: split_paired_all prod.case)
    apply (rule same_last)
    apply (rule lit)
    done
qed

text \<open>
  C1, as amended: when the headers of the job cannot be decrypted, executeJob returns no
  result. Provided the Elasticsearch service has been obtained, which executeJob awaits
  before it decrypts, it logs
  the underlying error on the factory's logger and throws an \<open>Error\<close> whose message
  is the translation of \<open>Failed to decrypt report job data...\<close> with the underlying
  error's text: the underlying error is \<open>Job headers are missing\<close> when
  \<open>job.headers\<close> is not a string, and the rejection of \<open>crypto.decrypt\<close>
  otherwise.
\<close>

theorem executeJob_decrypt_failure:
  "(getElasticsearchService env = Inr elasticsearch \<longrightarrow> (\<forall>h. headers (payload w) \<noteq> Str h) \<longrightarrow>
      executeJob env crypto logger serverBasePath jobId token w =
        (Inl (new_Error (failedToDecryptReportJobDataErrorMessage env
                (new_Error (missingJobHeadersErrorMessage env)))),
         w\<lparr>calls := calls w @ [GetElasticsearchService],
           logged := logged w @
             [LogError logger (new_Error (missingJobHeadersErrorMessage env))]\<rparr>))
   \<and> (getElasticsearchService env = Inr elasticsearch \<longrightarrow> headers (payload w) = Str h \<longrightarrow>
        decrypt env crypto h = Inl err \<longrightarrow>
      executeJob env crypto logger serverBasePath jobId token w =
        (Inl (new_Error (failedToDecryptReportJobDataErrorMessage env err)),
         w\<lparr>calls := calls w @ [GetElasticsearchService, Decrypt crypto h],
           logged := logged w @ [LogError logger err]\<rparr>))
   \<and> (((\<forall>h. headers (payload w) \<noteq> Str h)
         \<or> (\<exists>h err. headers (payload w) = Str h \<and> decrypt env crypto h = Inl err)) \<longrightarrow>
        (\<exists>e. fst (executeJob env crypto logger serverBasePath jobId token w) = Inl e))"
proof (intro conjI impI)
  assume es: "getElasticsearchService env = Inr elasticsearch"
    and missing: "\<forall>h. headers (payload w) \<noteq> Str h"
  show "executeJob env crypto logger serverBasePath jobId token w =
        (Inl (new_Error (failedToDecryptReportJobDataErrorMessage env
                (new_Error (missingJobHeadersErrorMessage env)))),
         w\<lparr>calls := calls w @ [GetElasticsearchService],
           logged := logged w @
             [LogError logger (new_Error (missingJobHeadersErrorMessage env))]\<rparr>)"
    by (rule executeJob_until_decrypt [OF es]) (simp add: decryptHeaders_missing missing)
next
  assume es: "getElasticsearchService env = Inr elasticsearch"
    and h: "headers (payload w) = Str h"
    and rejected: "decrypt env crypto h = Inl err"
  show "executeJob env crypto logger serverBasePath jobId token w =
        (Inl (new_Error (failedToDecryptReportJobDataErrorMessage env err)),
         w\<lparr>calls := calls w @ [GetElasticsearchService, Decrypt crypto h],
           logged := logged w @ [LogError logger err]\<rparr>)"
    by (rule executeJob_until_decrypt [OF es]) (simp add: h decryptHeaders_rejected [OF rejected])
next
  assume fails: "(\<forall>h. headers (payload w) \<noteq> Str h)
         \<or> (\<exists>h err. headers (payload w) = Str h \<and> decrypt env crypto h = Inl err)"
  show "\<exists>e. fst (executeJob env crypto logger serverBasePath jobId token w) = Inl e"
  proof (cases "executeJob env crypto logger serverBasePath jobId token w")
    case (Pair r w')
    show ?thesis
    proof (cases r)
      case (Inl e)
      with Pair show ?thesis by simp
    next
      case (Inr result)
      with Pair have run: "executeJob env crypto logger serverBasePath jobId token w
          = (Inr result, w')"
        by simp
      from executeJob_needs_headers [OF run]
      obtain h d where "headers (payload w) = Str h" "decrypt env crypto h = Inr d"
        by blast
      with fails show ?thesis by auto
    qed
  qed
qed

theorem executeJob_decrypt_failure_witness:
  "executeJob sample_env (Crypto Undefined) sample_logger (Str ''/kbn'') ''job-1'' 7
       (sample_world (sample_job\<lparr>headers := Undefined\<rparr>))
     = (Inl (new_Error (failedToDecryptReportJobDataErrorMessage sample_env
               (new_Error ''Job headers are missing''))),
        \<lparr>payload = sample_job\<lparr>headers := Undefined\<rparr>,
         logged = [LogError sample_logger (new_Error ''Job headers are missing'')],
         calls = [GetElasticsearchService]\<rparr>)
   \<and> executeJob sample_env (Crypto Undefined) sample_logger (Str ''/kbn'') ''job-1'' 7
       (sample_world (sample_job\<lparr>headers := Str ''garbled''\<rparr>))
     = (Inl (new_Error (failedToDecryptReportJobDataErrorMessage sample_env
               (JsError ''Error'' ''unable to authenticate data''))),
        \<lparr>payload = sample_job\<lparr>headers := Str ''garbled''\<rparr>,
         logged = [LogError sample_logger (JsError ''Error'' ''unable to authenticate data'')],
         calls = [GetElasticsearchService, Decrypt (Crypto Undefined) ''garbled'']\<rparr>)
   \<and> failedToDecryptReportJobDataErrorMessage sample_env
         (JsError ''Error'' ''unable to authenticate data'')
     = ''Failed to decrypt report job data. Please ensure that {encryptionKey} is set and re-generate this report. {err}''"
proof -
  have es: "getElasticsearchService sample_env = Inr (ElasticsearchService 0)"
    by (simp add: sample_env_def)
  have rejected: "decrypt sample_env (Crypto Undefined) ''garbled''
      = Inl (JsError ''Error'' ''unable to authenticate data'')"
    by (simp add: sample_env_def)
  have missing: "missingJobHeadersErrorMessage sample_env = ''Job headers are missing''"
    by (simp add: missingJobHeadersErrorMessage_def sample_env_def)
  have msg: "failedToDecryptReportJobDataErrorMessage sample_env
         (JsError ''Error'' ''unable to authenticate data'')
     = ''Failed to decrypt report job data. Please ensure that {encryptionKey} is set and re-generate this report. {err}''"
    by (simp add: failedToDecryptReportJobDataErrorMessage_def sample_env_def)
  from executeJob_decrypt_failure [of sample_env "ElasticsearchService 0"
      "sample_world (sample_job\<lparr>headers := Undefined\<rparr>)" "Crypto Undefined" sample_logger
      "Str ''/kbn''" "''job-1''" 7]
  have first: "executeJob sample_env (Crypto Undefined) sample_logger (Str ''/kbn'') ''job-1'' 7
       (sample_world (sample_job\<lparr>headers := Undefined\<rparr>))
     = (Inl (new_Error (failedToDecryptReportJobDataErrorMessage sample_env
               (new_Error ''Job headers are missing''))),
        \<lparr>payload = sample_job\<lparr>headers := Undefined\<rparr>,
         logged = [LogError sample_logger (new_Error ''Job headers are missing'')],
         calls = [GetElasticsearchService]\<rparr>)"
    using es missing by (simp add: sample_world_def)
  from executeJob_decrypt_failure [of sample_env "ElasticsearchService 0"
      "sample_world (sample_job\<lparr>headers := Str ''garbled''\<rparr>)" "Crypto Undefined" sample_logger
      "Str ''/kbn''" "''job-1''" 7 "''garbled''" "JsError ''Error'' ''unable to authenticate data''"]
  have second: "executeJob sample_env (Crypto Undefined) sample_logger (Str ''/kbn'') ''job-1'' 7
       (sample_world (sample_job\<lparr>headers := Str ''garbled''\<rparr>))
     = (Inl (new_Error (failedToDecryptReportJobDataErrorMessage sample_env
               (JsError ''Error'' ''unable to authenticate data''))),
        \<lparr>payload = sample_job\<lparr>headers := Str ''garbled''\<rparr>,
         logged = [LogError sample_logger (JsError ''Error'' ''unable to authenticate data'')],
         calls = [GetElasticsearchService, Decrypt (Crypto Undefined) ''garbled'']\<rparr>)"
    using es rejected by (simp add: sample_world_def)
  from first second msg show ?thesis by blast
qed

text \<open>
  C1, as first stated, fails: it has no condition on the Elasticsearch service. For a job
  whose headers are not a string and a service that cannot be obtained, executeJob throws
  the rejection of \<open>getElasticsearchService\<close>, which is not the error about the
  decryption, and logs nothing.
\<close>

theorem executeJob_decrypt_failure_counterexample:
  "headers (payload (sample_world (sample_job\<lparr>headers := Undefined\<rparr>))) = Undefined
   \<and> executeJob sample_env_no_es (Crypto Undefined) sample_logger (Str ''/kbn'') ''job-1'' 7
       (sample_world (sample_job\<lparr>headers := Undefined\<rparr>))
     = (Inl (new_Error ''Elasticsearch is not available''),
        \<lparr>payload = sample_job\<lparr>headers := Undefined\<rparr>,
         logged = [],
         calls = [GetElasticsearchService]\<rparr>)
   \<and> new_Error ''Elasticsearch is not available''
     \<noteq> new_Error (failedToDecryptReportJobDataErrorMessage sample_env_no_es
           (new_Error (missingJobHeadersErrorMessage sample_env_no_es)))"
  by (simp add: executeJob_def bind_def await_def start_def settle_def throw_def
      sample_env_no_es_def sample_env_def sample_world_def new_Error_def
      failedToDecryptReportJobDataErrorMessage_def missingJobHeadersErrorMessage_def)

text \<open>
  C2: a run of executeJob that resolves has obtained the Elasticsearch service, decrypted
  the headers, built the fake request from the decrypted headers, obtained the saved
  objects client and the ui settings client for that request, started the read of the
  field formats and the three reads of ui settings, and then called \<open>generateCsv\<close>,
  in this order and each once. \<open>generateCsv\<close> got the searchRequest, fields, metaFields
  and conflictedTypesFields of the job. The content returned is the byte order mark
  (\<open>CSV_BOM_CHARS\<close> when \<open>csv.useByteOrderMarkEncoding\<close> is set, the empty string
  otherwise) followed by the content \<open>generateCsv\<close> returned; maxSizeReached, size and
  csvContainsFormulas are those \<open>generateCsv\<close> returned.
\<close>

theorem executeJob_success_steps:
  assumes "executeJob env crypto logger serverBasePath jobId token w = (Inr result, w')"
  shows "\<exists>elasticsearch h decrypted fakeRequest savedObjectsClient uiSettingsClient
            t0 fieldFormats t1 sep t2 quo t3 tz args generated.
      getElasticsearchService env = Inr elasticsearch
    \<and> headers (payload w) = Str h
    \<and> decrypt env crypto h = Inr decrypted
    \<and> fakeRequest = KibanaRequest_from env
          \<lparr>req_headers = decrypted,
           req_getBasePath = (if truthy (basePath (payload w)) then basePath (payload w)
                              else serverBasePath),
           req_path = ''/'', req_route_settings = Obj [], req_url_href = ''/'',
           req_raw_req_url = ''/''\<rparr>
    \<and> getSavedObjectsClient env fakeRequest = Inr savedObjectsClient
    \<and> getUiSettingsServiceFactory env savedObjectsClient = Inr uiSettingsClient
    \<and> fieldFormatServiceFactory env uiSettingsClient = (t0, Inr fieldFormats)
    \<and> uiSettings_get env uiSettingsClient ''csv:separator'' = (t1, Inr sep)
    \<and> uiSettings_get env uiSettingsClient ''csv:quoteValues'' = (t2, Inr quo)
    \<and> uiSettings_get env uiSettingsClient ''dateFormat:tz'' = (t3, Inr tz)
    \<and> args = \<lparr>arg_searchRequest = searchRequest (payload w),
               arg_fields = fields' (payload w),
               arg_metaFields = metaFields (payload w),
               arg_conflictedTypesFields = conflictedTypesFields (payload w),
               arg_callEndpoint = CallEndpoint (asScoped env elasticsearch fakeRequest),
               arg_cancellationToken = token,
               arg_formatsMap = fieldFormatMapFactory env
                  (indexPatternSavedObject (payload w)) fieldFormats,
               arg_settings =
                 \<lparr>separator = sep, quoteValues = quo, timezone = tz,
                  checkForFormulas = config_get env [''csv'', ''checkForFormulas''],
                  maxSizeBytes = config_get env [''csv'', ''maxSizeBytes''],
                  scroll = config_get env [''csv'', ''scroll'']\<rparr>\<rparr>
    \<and> generateCsv env (Clone logger [jobId]) args = Inr generated
    \<and> calls w' = calls w @
          [GetElasticsearchService,
           Decrypt crypto h,
           GetSavedObjectsClient fakeRequest,
           GetUiSettingsServiceFactory savedObjectsClient,
           FieldFormatServiceFactory uiSettingsClient,
           UiSettingsGet uiSettingsClient ''csv:separator'',
           UiSettingsGet uiSettingsClient ''csv:quoteValues'',
           UiSettingsGet uiSettingsClient ''dateFormat:tz'',
           GenerateCsv (Clone logger [jobId]) args]
    \<and> generateCsv_calls (drop (length (calls w)) (calls w')) = [(Clone logger [jobId], args)]
    \<and> content result =
          (if truthy (config_get env [''csv'', ''useByteOrderMarkEncoding''])
           then CSV_BOM_CHARS env else []) @ csv_content generated
    \<and> max_size_reached result = csv_maxSizeReached generated
    \<and> size_bytes result = csv_size generated
    \<and> csv_contains_formulas result = csv_containsFormulas generated"
  using executeJob_Inr [OF assms]
  apply (simp only: Let_def)
  apply (elim exE conjE)
  apply (simp add: generateCsv_calls_simps split del: if_split cong: if_cong)
  done

theorem executeJob_success_steps_witness:
  "\<exists>result w'.
     executeJob sample_env (Crypto Undefined) sample_logger (Str ''/kbn'') ''job-1'' 7
       (sample_world sample_job) = (Inr result, w')
     \<and> generateCsv_calls (calls w') = [(Clone sample_logger [''job-1''], sample_args)]
     \<and> content result = ''BOM'' @ csv_content sample_generated
     \<and> max_size_reached result = csv_maxSizeReached sample_generated
     \<and> size_bytes result = csv_size sample_generated
     \<and> csv_contains_formulas result = csv_containsFormulas sample_generated"
proof -
  have gen: "generateCsv sample_env l a = Inr sample_generated" for l a
    by (simp add: sample_env_def)
  have bom: "truthy (config_get sample_env [''csv'', ''useByteOrderMarkEncoding''])"
    "CSV_BOM_CHARS sample_env = ''BOM''"
    by (simp_all add: sample_env_def)
  have start: "calls (sample_world sample_job) = []"
    by (simp add: sample_world_def)
  from executeJob_success_steps [OF sample_run]
  show ?thesis
    using sample_run gen bom start
    by (auto simp: generateCsv_calls_simps sample_args_def)
qed

text \<open>
  C5: the result of a run of executeJob that resolves has the content type
  \<open>text/csv\<close>.
\<close>

theorem executeJob_content_type:
  assumes "executeJob env crypto logger serverBasePath jobId token w = (Inr result, w')"
  shows "content_type result = ''text/csv''"
  using executeJob_Inr [OF assms]
  apply (simp only: Let_def)
  apply (elim exE conjE)
  apply simp
  done

theorem executeJob_content_type_witness:
  "\<exists>result w'.
     executeJob sample_env (Crypto Undefined) sample_logger (Str ''/kbn'') ''job-1'' 7
       (sample_world sample_job) = (Inr result, w')
     \<and> content_type result = ''text/csv''"
  using sample_run executeJob_content_type [OF sample_run] by blast

text \<open>
  C6: executeJob only hands the cancellation token on. In every run \<open>generateCsv\<close> is
  called at most once, and exactly once in a run that resolves; the call has the token as
  its cancellationToken. Nothing else depends on the token: if \<open>generateCsv\<close> makes no
  difference between two tokens, the runs with the one and with the other have the same
  outcome and log the same.
\<close>

theorem executeJob_cancellationToken:
  "(\<exists>cs. calls (snd (executeJob env crypto logger serverBasePath jobId token w)) = calls w @ cs
     \<and> (generateCsv_calls cs = []
        \<or> (\<exists>a. generateCsv_calls cs = [(Clone logger [jobId], a)]
               \<and> arg_cancellationToken a = token))
     \<and> (\<forall>result. fst (executeJob env crypto logger serverBasePath jobId token w) = Inr result \<longrightarrow>
          (\<exists>a. generateCsv_calls cs = [(Clone logger [jobId], a)]
               \<and> arg_cancellationToken a = token)))
   \<and> ((\<forall>l a. generateCsv env l (a\<lparr>arg_cancellationToken := token'\<rparr>)
                 = generateCsv env l (a\<lparr>arg_cancellationToken := token\<rparr>)) \<longrightarrow>
        fst (executeJob env crypto logger serverBasePath jobId token' w)
          = fst (executeJob env crypto logger serverBasePath jobId token w)
      \<and> logged (snd (executeJob env crypto logger serverBasePath jobId token' w))
          = logged (snd (executeJob env crypto logger serverBasePath jobId token w)))"
proof (intro conjI impI)
  let ?run = "executeJob env crypto logger serverBasePath jobId token w"
  from once_executeJob [of logger jobId token env crypto serverBasePath]
  obtain cs where cs: "calls (snd ?run) = calls w @ cs"
    and once: "generateCsv_calls cs = []
        \<or> (\<exists>a. generateCsv_calls cs = [(Clone logger [jobId], a)]
               \<and> arg_cancellationToken a = token)"
    unfolding at_most_once_def by blast
  have "\<exists>a. generateCsv_calls cs = [(Clone logger [jobId], a)] \<and> arg_cancellationToken a = token"
    if ok: "fst ?run = Inr result" for result
  proof -
    obtain w' where run: "?run = (Inr result, w')"
      using ok by (cases ?run) simp
    from executeJob_Inr_calls [OF run] obtain a where
      a: "generateCsv_calls (drop (length (calls w)) (calls w')) = [(Clone logger [jobId], a)]"
        "arg_cancellationToken a = token"
      by blast
    have "drop (length (calls w)) (calls w') = cs"
      using cs run by simp
    with a show ?thesis by auto
  qed
  with cs once
  show "\<exists>cs. calls (snd ?run) = calls w @ cs
     \<and> (generateCsv_calls cs = []
        \<or> (\<exists>a. generateCsv_calls cs = [(Clone logger [jobId], a)]
               \<and> arg_cancellationToken a = token))
     \<and> (\<forall>result. fst ?run = Inr result \<longrightarrow>
          (\<exists>a. generateCsv_calls cs = [(Clone logger [jobId], a)]
               \<and> arg_cancellationToken a = token))"
    by blast
next
  assume ignores: "\<forall>l a. generateCsv env l (a\<lparr>arg_cancellationToken := token'\<rparr>)
                 = generateCsv env l (a\<lparr>arg_cancellationToken := token\<rparr>)"
  have same: "same_outcome (executeJob env crypto logger serverBasePath jobId token')
           (executeJob env crypto logger serverBasePath jobId token)"
    by (rule same_executeJob) (simp add: ignores)
  from same show "fst (executeJob env crypto logger serverBasePath jobId token' w)
          = fst (executeJob env crypto logger serverBasePath jobId token w)"
    by (simp add: same_outcome_def)
  from same show "logged (snd (executeJob env crypto logger serverBasePath jobId token' w))
          = logged (snd (executeJob env crypto logger serverBasePath jobId token w))"
    by (simp add: same_outcome_def)
qed

theorem executeJob_cancellationToken_witness:
  "(\<exists>a. generateCsv_calls
          (calls (snd (executeJob sample_env (Crypto Undefined) sample_logger (Str ''/kbn'')
             ''job-1'' 7 (sample_world sample_job))))
          = [(Clone sample_logger [''job-1''], a)]
        \<and> arg_cancellationToken a = 7)
   \<and> fst (executeJob sample_env (Crypto Undefined) sample_logger (Str ''/kbn'') ''job-1'' 8
          (sample_world sample_job))
     = fst (executeJob sample_env (Crypto Undefined) sample_logger (Str ''/kbn'') ''job-1'' 7
          (sample_world sample_job))"
proof -
  have ignores: "\<forall>l a. generateCsv sample_env l (a\<lparr>arg_cancellationToken := 8\<rparr>)
                 = generateCsv sample_env l (a\<lparr>arg_cancellationToken := 7\<rparr>)"
    by (simp add: sample_env_def)
  have ok: "fst (executeJob sample_env (Crypto Undefined) sample_logger (Str ''/kbn'') ''job-1'' 7
          (sample_world sample_job))
      = Inr \<lparr>content_type = ''text/csv'', content = ''BOMa,b'', max_size_reached = Bool False,
         size_bytes = Num 3, csv_contains_formulas = Bool False\<rparr>"
    by (simp add: sample_run)
  have start: "calls (sample_world sample_job) = []"
    by (simp add: sample_world_def)
  from executeJob_cancellationToken [of sample_env "Crypto Undefined" sample_logger
      "Str ''/kbn''" "''job-1''" 7 "sample_world sample_job" 8]
  show ?thesis
    using ignores ok start by auto
qed

end
